theory Spec2Isabelle
  imports Complex_Main "HOL-Library.Word"
begin

unbundle bit_operations_syntax

section \<open>Message kinds and wire framing\<close>

text \<open>
  The enumerations of \<^verbatim>\<open>MessageTypes.hpp\<close>.  The header is not part of the sources at
  hand, so the enumerators are constructors here and their 16-bit wire numbers are a
  parameter (\<open>cid\<close> and \<open>tid\<close> of the environment below).
\<close>

datatype ControlMessageType =
    NO_CONTROL_DATA | TARGET_POSE_COMMAND | TWIST_COMMAND | GOTO_COMMAND
  | JOINTS_COMMAND | SIMPLE_ACTIONS_COMMAND | COMPLEX_ACTION_COMMAND
  | ROBOT_TRAJECTORY_COMMAND | HEARTBEAT | PERMISSION | TELEMETRY_REQUEST
  | MAP_REQUEST | LOG_LEVEL_SELECT | FILE_REQUEST

datatype TelemetryMessageType =
    CURRENT_POSE | JOINT_STATE | CONTROLLABLE_JOINTS | SIMPLE_ACTIONS
  | COMPLEX_ACTIONS | ROBOT_NAME | ROBOT_STATE | LOG_MESSAGE | VIDEO_STREAMS
  | SIMPLE_SENSOR_DEFINITION | SIMPLE_SENSOR_VALUE | WRENCH_STATE
  | MAPS_DEFINITION | MAP | POSES | TRANSFORMS | PERMISSION_REQUEST
  | POINTCLOUD | IMU_VALUES | CONTACT_POINTS | CURRENT_TWIST
  | CURRENT_ACCELERATION | CAMERA_INFORMATION | IMAGE | IMAGE_LAYERS
  | ODOMETRY | CONTROLLABLE_FRAMES | FILE_DEFINITION

text \<open>
  A \<^verbatim>\<open>std::string\<close> is a list of bytes (\<open>string\<close>).  \<^verbatim>\<open>evaluateRequest\<close> reads the kind
  through \<^verbatim>\<open>*reinterpret_cast<uint16_t*>(s.data())\<close>, host byte order, little-endian here.
  \<^verbatim>\<open>data()\<close> of a string of size \<open>n\<close> is followed by one terminating zero byte; what
  lies after the terminator is not determined by the program and is the parameter
  \<open>stray\<close>.
\<close>

definition read_u16 :: "char \<Rightarrow> string \<Rightarrow> 16 word" where
  "read_u16 stray s =
     (case s of
        [] \<Rightarrow> push_bit 8 (of_char stray)
      | [c0] \<Rightarrow> of_char c0
      | c0 # c1 # _ \<Rightarrow> of_char c0 OR push_bit 8 (of_char c1))"

text \<open>\<^verbatim>\<open>addControlMessageType\<close>: grow the buffer by two bytes and store the kind there.\<close>

definition addControlMessageType :: "string \<Rightarrow> 16 word \<Rightarrow> string" where
  "addControlMessageType buf type =
     buf @ [char_of (unat type), char_of (unat (drop_bit 8 type))]"

definition addTelemetryMessageType :: "string \<Rightarrow> 16 word \<Rightarrow> string" where
  "addTelemetryMessageType buf type =
     buf @ [char_of (unat type), char_of (unat (drop_bit 8 type))]"

definition serializeControlMessageType :: "16 word \<Rightarrow> string" where
  "serializeControlMessageType type = addControlMessageType [] type"

section \<open>Errors\<close>

text \<open>
  \<open>LengthError\<close>: \<^verbatim>\<open>std::length_error\<close>, raised by the \<^verbatim>\<open>std::string(ptr, n)\<close> constructor
  when \<open>n\<close> exceeds \<^verbatim>\<open>max_size()\<close>.  \<open>RepeatedFieldIndex\<close>: an index into a protobuf
  repeated field at or beyond its size.
\<close>

datatype error = LengthError | RepeatedFieldIndex

datatype future_errc = promise_already_satisfied | future_already_retrieved

section \<open>Command buffers\<close>

text \<open>
  \<^verbatim>\<open>CommandBuffer<COMMAND>\<close>: the stored command, the atomic flag \<open>isnew\<close> and the callbacks
  of \<^verbatim>\<open>CommandBufferBase\<close>.  Callbacks are opaque user closures, named by numbers here;
  \<open>fired\<close> lists the callbacks invoked so far, oldest first.  A callback is taken not to
  throw and not to call back into the robot.
\<close>

record 'c CommandBuffer =
  command :: 'c
  isnew :: bool
  callbacks :: "nat list"
  fired :: "nat list"

definition CommandBuffer_init :: "'c \<Rightarrow> 'c CommandBuffer" where
  "CommandBuffer_init dflt = \<lparr>command = dflt, isnew = False, callbacks = [], fired = []\<rparr>"

definition notify :: "'c CommandBuffer \<Rightarrow> 'c CommandBuffer" where
  "notify b = b\<lparr>fired := fired b @ callbacks b\<rparr>"

definition addCommandReceivedCallback_buf :: "nat \<Rightarrow> 'c CommandBuffer \<Rightarrow> 'c CommandBuffer" where
  "addCommandReceivedCallback_buf cb b = b\<lparr>callbacks := callbacks b @ [cb]\<rparr>"

text \<open>\<^verbatim>\<open>bool read(COMMAND *target)\<close>: the old flag, the value stored into \<^verbatim>\<open>*target\<close>, the buffer.\<close>

definition CommandBuffer_read :: "'c CommandBuffer \<Rightarrow> bool \<times> 'c \<times> 'c CommandBuffer" where
  "CommandBuffer_read b = (isnew b, command b, b\<lparr>isnew := False\<rparr>)"

text \<open>\<^verbatim>\<open>void write(const COMMAND &src)\<close>.\<close>

definition CommandBuffer_write_value :: "'c \<Rightarrow> 'c CommandBuffer \<Rightarrow> 'c CommandBuffer" where
  "CommandBuffer_write_value src b = notify (b\<lparr>command := src, isnew := True\<rparr>)"

text \<open>
  \<^verbatim>\<open>bool write(const std::string &serializedMessage)\<close>.  \<^verbatim>\<open>ParseFromString\<close> works on the
  stored command itself: it clears the message and merges the input, so the stored
  command is replaced by what the parser leaves, on success and on failure alike.  The
  parser of the buffer's message type is the argument \<open>parse\<close>; it returns the success
  flag and the message it leaves.
\<close>

definition CommandBuffer_write :: "(string \<Rightarrow> bool \<times> 'c) \<Rightarrow> string \<Rightarrow> 'c CommandBuffer \<Rightarrow> bool \<times> 'c CommandBuffer" where
  "CommandBuffer_write parse serializedMessage b =
     (let b1 = b\<lparr>command := snd (parse serializedMessage)\<rparr>
      in if \<not> fst (parse serializedMessage)
         then (False, b1\<lparr>isnew := False\<rparr>)
         else (True, notify (b1\<lparr>isnew := True\<rparr>)))"

text \<open>\<^verbatim>\<open>bool read(std::string *receivedMessage)\<close>.\<close>

definition CommandBuffer_read_string :: "('c \<Rightarrow> string) \<Rightarrow> 'c CommandBuffer \<Rightarrow> bool \<times> string \<times> 'c CommandBuffer" where
  "CommandBuffer_read_string serialize b = (isnew b, serialize (command b), b\<lparr>isnew := False\<rparr>)"

text \<open>The buffer members of \<^verbatim>\<open>ControlledRobot\<close>; a \<^verbatim>\<open>CommandBufferBase*\<close> is one of these names.\<close>

datatype bufname =
    poseCommand | twistCommand | goToCommand | simpleActionsCommand
  | complexActionCommandBuffer | jointsCommand | heartbeatCommand
  | permissionCommand | robotTrajectoryCommand

section \<open>Messages the engine looks into\<close>

record Permission =
  requestuid :: string
  granted :: bool

record PermissionRequest =
  PermissionRequest_requestuid :: string
  PermissionRequest_description :: string

record LogMessage =
  LogMessage_level :: "32 word"
  LogMessage_message :: string

record FileRequest =
  FileRequest_identifier :: string
  FileRequest_compressed :: bool

record File =
  File_identifier :: string
  path :: string
  data :: string

record Folder =
  Folder_file :: "File list"
  Folder_identifier :: string
  Folder_compressed :: bool

record FileDefinition =
  FileDefinition_file :: "File list"
  FileDefinition_isfolder :: "bool list"

definition File_default :: File where
  "File_default = \<lparr>File_identifier = [], path = [], data = []\<rparr>"

definition Folder_default :: Folder where
  "Folder_default = \<lparr>Folder_file = [], Folder_identifier = [], Folder_compressed = False\<rparr>"

section \<open>Promises\<close>

text \<open>
  \<^verbatim>\<open>std::promise<bool>\<close>: whether its future has been retrieved, and the value once set.
  \<^verbatim>\<open>set_value\<close> on a satisfied promise and \<^verbatim>\<open>get_future\<close> on a retrieved one throw
  \<^verbatim>\<open>std::future_error\<close>.
\<close>

record promise =
  retrieved :: bool
  val :: "bool option"

definition promise_default :: promise where
  "promise_default = \<lparr>retrieved = False, val = None\<rparr>"

definition set_value :: "bool \<Rightarrow> promise \<Rightarrow> future_errc + promise" where
  "set_value g p = (case val p of Some _ \<Rightarrow> Inl promise_already_satisfied
                     | None \<Rightarrow> Inr (p\<lparr>val := Some g\<rparr>))"

definition get_future :: "promise \<Rightarrow> future_errc + promise" where
  "get_future p = (if retrieved p then Inl future_already_retrieved
                    else Inr (p\<lparr>retrieved := True\<rparr>))"

text \<open>A \<^verbatim>\<open>std::shared_future<bool>\<close> refers to the shared state of the promise stored under a key.\<close>

datatype shared_future = Future string

section \<open>Timer\<close>

text \<open>
  Modelled from the spec: the class \<^verbatim>\<open>Timer\<close> (\<^verbatim>\<open>UpdateThread/Timer.hpp\<close>) is missing from
  the sources.  The spec: a monotonic timer set from the last observed heartbeat; elapsed
  time is reported from timer start.  The timer keeps no record of an expiry it has
  reported.  The clock reading is the argument \<open>now\<close>; times are real numbers (the source
  uses \<^verbatim>\<open>float\<close>, whose rounding is not modelled).
\<close>

record Timer =
  started :: bool
  startTime :: real
  interval :: real

text \<open>Modelled from the spec: a \<^verbatim>\<open>Timer\<close> (class missing from the sources) as constructed is not running.\<close>

definition Timer_init :: Timer where
  "Timer_init = \<lparr>started = False, startTime = 0, interval = 0\<rparr>"

text \<open>
  Modelled from the spec: \<^verbatim>\<open>Timer::start\<close> (missing from the sources) sets the timer
  running from the current clock reading, for the given interval.
\<close>

definition Timer_start :: "real \<Rightarrow> real \<Rightarrow> Timer \<Rightarrow> Timer" where
  "Timer_start now i t = \<lparr>started = True, startTime = now, interval = i\<rparr>"

text \<open>
  Modelled from the spec: \<^verbatim>\<open>Timer::getElapsedTime\<close> (missing from the sources) reports the
  time elapsed since the timer was started.
\<close>

definition Timer_getElapsedTime :: "real \<Rightarrow> Timer \<Rightarrow> real" where
  "Timer_getElapsedTime now t = now - startTime t"

text \<open>
  Modelled from the spec: \<^verbatim>\<open>Timer::isExpired\<close> (missing from the sources) says whether
  the timer, once started, has been running for longer than its interval.
\<close>

definition Timer_isExpired :: "real \<Rightarrow> Timer \<Rightarrow> bool" where
  "Timer_isExpired now t \<longleftrightarrow> started t \<and> interval t < Timer_getElapsedTime now t"

section \<open>External collaborators\<close>

text \<open>
  What the engine consumes and the sources do not define: the wire numbers of the kinds,
  the protobuf codecs, the file system, the compressor, the telemetry transport's return
  value.  \<open>'c\<close> is the type of command messages.
  \<^item> \<open>ParseFromString b\<close> is the parser of the message type of buffer \<open>b\<close>: success flag
    and the message left behind; \<open>Default b\<close> is its default-constructed message.
  \<^item> \<open>ZLIB_FOUND\<close> is the compile-time switch of the same name.
  \<^item> \<open>read_file p\<close> is the content of the file at \<open>p\<close> when the stream opens.
  \<^item> \<open>directory_entries p\<close> are the paths the recursive directory iterator yields, and
    the text of the \<^verbatim>\<open>filesystem_error\<close> that ends the iteration, if any.
\<close>

record 'c Env =
  cid :: "ControlMessageType \<Rightarrow> 16 word"
  tid :: "TelemetryMessageType \<Rightarrow> 16 word"
  stray :: char
  ParseFromString :: "bufname \<Rightarrow> string \<Rightarrow> bool \<times> 'c"
  SerializeToString :: "bufname \<Rightarrow> 'c \<Rightarrow> string"
  Default :: "bufname \<Rightarrow> 'c"
  heartbeatduration :: "'c \<Rightarrow> real"
  Permission_ParseFromString :: "string \<Rightarrow> bool \<times> Permission"
  FileRequest_ParseFromString :: "string \<Rightarrow> bool \<times> FileRequest"
  Folder_SerializeToString :: "Folder \<Rightarrow> string"
  LogMessage_AppendToString :: "LogMessage \<Rightarrow> string"
  PermissionRequest_AppendToString :: "PermissionRequest \<Rightarrow> string"
  ZLIB_FOUND :: bool
  compressString :: "string \<Rightarrow> string"
  read_file :: "string \<Rightarrow> string option"
  directory_entries :: "string \<Rightarrow> string list \<times> string option"
  Transport_send :: "string \<Rightarrow> 32 word"

section \<open>Telemetry buffer and map buffer\<close>

text \<open>
  Modelled from the spec: \<^verbatim>\<open>TelemetryBuffer\<close> and \<^verbatim>\<open>RingBufferAccess\<close>
  (\<^verbatim>\<open>TelemetryBuffer.hpp\<close>) are missing from the sources.  The spec: registering a kind
  reserves a slot; a send stores the value, unframed, into the slot of its kind; peeking
  returns the tagged serialization stored in the slot, the empty buffer if nothing was
  ever pushed.  A slot holds the serialized payload of the latest push.  A kind without a
  slot is outside what the spec describes: pushing to it leaves the buffer as it is.
\<close>

type_synonym TelemetryBuffer = "16 word \<rightharpoonup> string option"

text \<open>
  Modelled from the spec: \<^verbatim>\<open>TelemetryBuffer::registerType\<close> (missing from the sources)
  reserves the slot of a kind, empty.
\<close>

definition registerType :: "16 word \<Rightarrow> TelemetryBuffer \<Rightarrow> TelemetryBuffer" where
  "registerType type bufs = bufs(type \<mapsto> None)"

text \<open>
  Modelled from the spec: \<^verbatim>\<open>RingBufferAccess::pushData\<close> (missing from the sources) on the
  slot of a kind replaces what the slot holds.
\<close>

definition pushData :: "TelemetryBuffer \<Rightarrow> 16 word \<Rightarrow> string \<Rightarrow> TelemetryBuffer" where
  "pushData bufs type payload =
     (case bufs type of None \<Rightarrow> bufs | Some _ \<Rightarrow> bufs(type \<mapsto> Some payload))"

text \<open>
  Modelled from the spec: \<^verbatim>\<open>TelemetryBuffer::peekSerialized\<close> (missing from the sources)
  returns the kind followed by the stored payload, or the empty buffer.
\<close>

definition peekSerialized :: "TelemetryBuffer \<Rightarrow> 16 word \<Rightarrow> string" where
  "peekSerialized bufs type =
     (case bufs type of
        Some (Some payload) \<Rightarrow> addTelemetryMessageType [] type @ payload
      | _ \<Rightarrow> [])"

text \<open>
  Modelled from the spec: \<^verbatim>\<open>SimpleBuffer\<close> (\<^verbatim>\<open>SimpleBuffer.hpp\<close>) is missing from the
  sources.  The spec: a mapping from map-id to the latest serialized map payload.  The
  source indexes it like a vector and compares the index with its size, so it is a list
  here, an entry being \<open>None\<close> until a map is stored.
\<close>

definition peekData_map :: "string option list \<Rightarrow> 16 word \<Rightarrow> string" where
  "peekData_map maps requestedMap =
     (if unat requestedMap < length maps
      then (case maps ! unat requestedMap of Some m \<Rightarrow> m | None \<Rightarrow> [])
      else [])"

section \<open>The controlled robot\<close>

text \<open>
  The members of \<^verbatim>\<open>ControlledRobot\<close>.  The transports are external; of the command
  transport the state keeps what was passed to \<^verbatim>\<open>send\<close>, oldest first (\<open>commandSent\<close>),
  and the messages it will deliver are an argument of \<open>update\<close>.  \<open>telemetryTransport\<close>
  is \<open>None\<close> for a null pointer, else the blobs passed to its \<^verbatim>\<open>send\<close>.
  \<open>commandCallbackLog\<close> and \<open>heartbeatExpiredLog\<close> record the invocations of the
  \<^verbatim>\<open>commandCallbacks\<close> and of \<^verbatim>\<open>heartbeatExpiredCallback\<close> with their arguments;
  \<open>heartbeatExpiredCallback\<close> says whether that callback is non-null.
\<close>

record 'c ControlledRobot =
  commandSent :: "string list"
  telemetryTransport :: "string list option"
  connected :: bool
  buffers :: TelemetryBuffer
  mapBuffer :: "string option list"
  logLevel :: "32 word"
  pendingPermissionRequests :: "string \<rightharpoonup> promise"
  cmdbuf :: "bufname \<Rightarrow> 'c CommandBuffer"
  commandbuffers :: "32 word \<rightharpoonup> bufname"
  commandCallbacks :: "nat list"
  commandCallbackLog :: "(nat \<times> 16 word) list"
  heartbeatValues :: 'c
  heartbeatTimer :: Timer
  heartbeatAllowedLatency :: real
  heartbeatExpiredCallback :: bool
  heartbeatExpiredLog :: "real list"
  files :: FileDefinition

definition CUSTOM :: "32 word" where
  "CUSTOM = 20"

definition commandTransport_send :: "string \<Rightarrow> 'c ControlledRobot \<Rightarrow> 'c ControlledRobot" where
  "commandTransport_send buf s = s\<lparr>commandSent := commandSent s @ [buf]\<rparr>"

definition registerCommandType :: "32 word \<Rightarrow> bufname \<Rightarrow> 'c ControlledRobot \<Rightarrow> 'c ControlledRobot" where
  "registerCommandType ID bufptr s = s\<lparr>commandbuffers := (commandbuffers s)(ID \<mapsto> bufptr)\<rparr>"

definition registerTelemetryType :: "16 word \<Rightarrow> 'c ControlledRobot \<Rightarrow> 'c ControlledRobot" where
  "registerTelemetryType type s = s\<lparr>buffers := registerType type (buffers s)\<rparr>"


definition isConnected :: "'c ControlledRobot \<Rightarrow> bool" where
  "isConnected s = connected s"

definition addCommandReceivedCallback :: "nat \<Rightarrow> 'c ControlledRobot \<Rightarrow> 'c ControlledRobot" where
  "addCommandReceivedCallback f s = s\<lparr>commandCallbacks := commandCallbacks s @ [f]\<rparr>"

definition notifyCommandCallbacks :: "16 word \<Rightarrow> 'c ControlledRobot \<Rightarrow> 'c ControlledRobot" where
  "notifyCommandCallbacks type s =
     s\<lparr>commandCallbackLog := commandCallbackLog s @ map (\<lambda>cb. (cb, type)) (commandCallbacks s)\<rparr>"

text \<open>
  The constructor of \<^verbatim>\<open>ControlledRobot.cpp\<close>, with the buffers the header declares (every
  command buffer a \<^verbatim>\<open>CommandBuffer\<close>).
\<close>

definition command_registrations :: "(ControlMessageType \<times> bufname) list" where
  "command_registrations =
     [(TARGET_POSE_COMMAND, poseCommand), (TWIST_COMMAND, twistCommand),
      (JOINTS_COMMAND, jointsCommand), (SIMPLE_ACTIONS_COMMAND, simpleActionsCommand),
      (COMPLEX_ACTION_COMMAND, complexActionCommandBuffer), (GOTO_COMMAND, goToCommand),
      (HEARTBEAT, heartbeatCommand), (PERMISSION, permissionCommand),
      (ROBOT_TRAJECTORY_COMMAND, robotTrajectoryCommand)]"

definition telemetry_registrations :: "TelemetryMessageType list" where
  "telemetry_registrations =
     [CURRENT_POSE, JOINT_STATE, CONTROLLABLE_JOINTS, SIMPLE_ACTIONS, COMPLEX_ACTIONS,
      ROBOT_NAME, ROBOT_STATE, LOG_MESSAGE, VIDEO_STREAMS, SIMPLE_SENSOR_DEFINITION,
      SIMPLE_SENSOR_VALUE, WRENCH_STATE, MAPS_DEFINITION, MAP, POSES, TRANSFORMS,
      PERMISSION_REQUEST, POINTCLOUD, IMU_VALUES, CONTACT_POINTS, CURRENT_TWIST,
      CURRENT_ACCELERATION, CAMERA_INFORMATION, IMAGE, IMAGE_LAYERS, ODOMETRY,
      CONTROLLABLE_FRAMES, FILE_DEFINITION]"

definition ControlledRobot_init :: "'c Env \<Rightarrow> string list option \<Rightarrow> 'c ControlledRobot" where
  "ControlledRobot_init E telemetry =
     fold (\<lambda>t. registerTelemetryType (tid E t)) telemetry_registrations
       (fold (\<lambda>(k, b). registerCommandType (ucast (cid E k)) b) command_registrations
          \<lparr>commandSent = [], telemetryTransport = telemetry, connected = False,
           buffers = Map.empty, mapBuffer = [], logLevel = CUSTOM - 1,
           pendingPermissionRequests = Map.empty,
           cmdbuf = (\<lambda>b. CommandBuffer_init (Default E b)),
           commandbuffers = Map.empty, commandCallbacks = [], commandCallbackLog = [],
           heartbeatValues = Default E heartbeatCommand, heartbeatTimer = Timer_init,
           heartbeatAllowedLatency = 1 / 10, heartbeatExpiredCallback = False,
           heartbeatExpiredLog = [],
           files = \<lparr>FileDefinition_file = [], FileDefinition_isfolder = []\<rparr>\<rparr>)"

subsection \<open>Command getters\<close>

text \<open>\<^verbatim>\<open>getTargetPoseCommand\<close>, \<^verbatim>\<open>getTwistCommand\<close>, ...: each is \<^verbatim>\<open>read\<close> on its buffer member.\<close>

definition getCommand :: "bufname \<Rightarrow> 'c ControlledRobot \<Rightarrow> bool \<times> 'c \<times> 'c ControlledRobot" where
  "getCommand b s =
     (case CommandBuffer_read (cmdbuf s b) of
        (oldval, target, b') \<Rightarrow> (oldval, target, s\<lparr>cmdbuf := (cmdbuf s)(b := b')\<rparr>))"

definition getTargetPoseCommand :: "'c ControlledRobot \<Rightarrow> bool \<times> 'c \<times> 'c ControlledRobot" where
  "getTargetPoseCommand = getCommand poseCommand"

definition getTwistCommand :: "'c ControlledRobot \<Rightarrow> bool \<times> 'c \<times> 'c ControlledRobot" where
  "getTwistCommand = getCommand twistCommand"

definition getGoToCommand :: "'c ControlledRobot \<Rightarrow> bool \<times> 'c \<times> 'c ControlledRobot" where
  "getGoToCommand = getCommand goToCommand"

definition getJointsCommand :: "'c ControlledRobot \<Rightarrow> bool \<times> 'c \<times> 'c ControlledRobot" where
  "getJointsCommand = getCommand jointsCommand"

definition getSimpleActionCommand :: "'c ControlledRobot \<Rightarrow> bool \<times> 'c \<times> 'c ControlledRobot" where
  "getSimpleActionCommand = getCommand simpleActionsCommand"

definition getComplexActionCommand :: "'c ControlledRobot \<Rightarrow> bool \<times> 'c \<times> 'c ControlledRobot" where
  "getComplexActionCommand = getCommand complexActionCommandBuffer"

definition getRobotTrajectoryCommand :: "'c ControlledRobot \<Rightarrow> bool \<times> 'c \<times> 'c ControlledRobot" where
  "getRobotTrajectoryCommand = getCommand robotTrajectoryCommand"

subsection \<open>Telemetry\<close>

text \<open>
  \<^verbatim>\<open>sendTelemetry<CLASS>\<close>; \<open>AppendToString\<close> is the serializer of \<^verbatim>\<open>CLASS\<close>.  The result
  is the \<^verbatim>\<open>int\<close> returned: \<^verbatim>\<open>bytes - sizeof(uint16_t)\<close> is computed in \<^verbatim>\<open>size_t\<close> and
  converted to \<^verbatim>\<open>int\<close>.
\<close>

definition sendTelemetry :: "'c Env \<Rightarrow> ('t \<Rightarrow> string) \<Rightarrow> 't \<Rightarrow> 16 word \<Rightarrow> bool \<Rightarrow> 'c ControlledRobot \<Rightarrow> int \<times> 'c ControlledRobot" where
  "sendTelemetry E AppendToString protodata type requestOnly s =
     (case telemetryTransport s of
        None \<Rightarrow> (0, s)
      | Some sent \<Rightarrow>
          (let buf = addTelemetryMessageType [] type @ AppendToString protodata;
               s1 = s\<lparr>buffers := pushData (buffers s) type (AppendToString protodata)\<rparr>
           in if \<not> requestOnly
              then (sint (ucast ((ucast (Transport_send E buf) :: 64 word) - 2) :: 32 word),
                    s1\<lparr>telemetryTransport := Some (sent @ [buf])\<rparr>)
              else (sint (word_of_nat (length buf) :: 32 word), s1)))"

text \<open>\<^verbatim>\<open>int setLogMessage(enum LogLevel lvl, const std::string& message)\<close>.\<close>

definition setLogMessage :: "'c Env \<Rightarrow> 32 word \<Rightarrow> string \<Rightarrow> 'c ControlledRobot \<Rightarrow> int \<times> 'c ControlledRobot" where
  "setLogMessage E lvl message s =
     (if lvl \<le> logLevel s \<or> lvl \<ge> CUSTOM
      then sendTelemetry E (LogMessage_AppendToString E) \<lparr>LogMessage_level = lvl, LogMessage_message = message\<rparr>
             (tid E LOG_MESSAGE) False s
      else (- 1, s))"

text \<open>\<^verbatim>\<open>int setLogMessage(const LogMessage& log_message)\<close>.\<close>

definition setLogMessage_msg :: "'c Env \<Rightarrow> LogMessage \<Rightarrow> 'c ControlledRobot \<Rightarrow> int \<times> 'c ControlledRobot" where
  "setLogMessage_msg E log_message s =
     (if LogMessage_level log_message \<le> logLevel s \<or> LogMessage_level log_message \<ge> CUSTOM
      then sendTelemetry E (LogMessage_AppendToString E) log_message (tid E LOG_MESSAGE) False s
      else (- 1, s))"

subsection \<open>Permission requests\<close>

text \<open>
  \<^verbatim>\<open>pendingPermissionRequests[uid]\<close>: \<^verbatim>\<open>operator[]\<close> of \<^verbatim>\<open>std::map\<close> inserts a default
  promise when the key is absent.
\<close>

definition pending_lookup :: "(string \<rightharpoonup> promise) \<Rightarrow> string \<Rightarrow> promise" where
  "pending_lookup m uid = (case m uid of None \<Rightarrow> promise_default | Some p \<Rightarrow> p)"

text \<open>
  \<^verbatim>\<open>requestPermission\<close>.  When \<^verbatim>\<open>get_future\<close> throws, the handler is empty and control
  runs off the end of the function: no future is returned (\<open>None\<close>).
\<close>

definition requestPermission :: "'c Env \<Rightarrow> PermissionRequest \<Rightarrow> 'c ControlledRobot \<Rightarrow> shared_future option \<times> 'c ControlledRobot" where
  "requestPermission E permissionrequest s =
     (let uid = PermissionRequest_requestuid permissionrequest;
          p = pending_lookup (pendingPermissionRequests s) uid;
          s1 = s\<lparr>pendingPermissionRequests := (pendingPermissionRequests s)(uid \<mapsto> p)\<rparr>;
          s2 = snd (sendTelemetry E (PermissionRequest_AppendToString E) permissionrequest
                      (tid E PERMISSION_REQUEST) False s1)
      in case get_future p of
           Inl e \<Rightarrow> (None, s2)
         | Inr p' \<Rightarrow>
             (Some (Future uid),
              s2\<lparr>pendingPermissionRequests := (pendingPermissionRequests s2)(uid \<mapsto> p')\<rparr>))"

text \<open>What a \<^verbatim>\<open>shared_future\<close> holds: the value of its shared state, once set.\<close>

definition future_value :: "'c ControlledRobot \<Rightarrow> shared_future \<Rightarrow> bool option" where
  "future_value s f =
     (case f of Future uid \<Rightarrow>
        (case pendingPermissionRequests s uid of None \<Rightarrow> None | Some p \<Rightarrow> val p))"

subsection \<open>File responder\<close>

text \<open>\<^verbatim>\<open>loadFile\<close>: the file filled in, and the \<^verbatim>\<open>bool\<close> returned.\<close>

definition loadFile :: "'c Env \<Rightarrow> File \<Rightarrow> string \<Rightarrow> bool \<Rightarrow> File \<times> bool" where
  "loadFile E f p compressed =
     (let f1 = f\<lparr>path := p\<rparr>
      in case read_file E p of
           Some content \<Rightarrow>
             (if ZLIB_FOUND E \<and> compressed
              then (f1\<lparr>data := compressString E content\<rparr>, True)
              else (f1\<lparr>data := content\<rparr>, True))
         | None \<Rightarrow> (f1, False))"

text \<open>
  \<^verbatim>\<open>loadFolder\<close>: one \<^verbatim>\<open>File\<close> is added for each entry the iterator yields; when the
  iteration ends in a \<^verbatim>\<open>filesystem_error\<close> the files added so far stay and the
  identifier becomes the error text.
\<close>

definition loadFolder :: "'c Env \<Rightarrow> Folder \<Rightarrow> string \<Rightarrow> bool \<Rightarrow> Folder \<times> bool" where
  "loadFolder E folder p compressed =
     (case directory_entries E p of (entries, err) \<Rightarrow>
        (let folder1 = folder\<lparr>Folder_file := Folder_file folder
                          @ map (\<lambda>entry. fst (loadFile E File_default entry compressed)) entries\<rparr>
         in case err of
              None \<Rightarrow> (folder1\<lparr>Folder_compressed := compressed\<rparr>, True)
            | Some what \<Rightarrow> (folder1\<lparr>Folder_identifier := what\<rparr>, False)))"

text \<open>The search loop of the \<^verbatim>\<open>FILE_REQUEST\<close> case: the first index whose identifier matches, else \<open>-1\<close>.\<close>

fun find_file :: "File list \<Rightarrow> string \<Rightarrow> int \<Rightarrow> int" where
  "find_file [] ident i = - 1"
| "find_file (f # fs) ident i =
     (if File_identifier f = ident then i else find_file fs ident (i + 1))"

subsection \<open>The request evaluator\<close>

text \<open>
  \<^verbatim>\<open>evaluateRequest\<close>.  The payload is built by
  \<^verbatim>\<open>std::string(request.data() + 2, request.size() - 2)\<close>; the size is unsigned, so for a
  request of fewer than two bytes the count wraps around to \<open>2^64 - 2\<close> or \<open>2^64 - 1\<close>,
  beyond \<^verbatim>\<open>max_size()\<close>, and the constructor throws \<^verbatim>\<open>std::length_error\<close>.  Nothing
  in \<^verbatim>\<open>evaluateRequest\<close>, \<^verbatim>\<open>receiveRequest\<close> or \<^verbatim>\<open>update\<close> catches it.  The \<^verbatim>\<open>switch\<close> is the
  chain of comparisons below; its labels are distinct enumerators.  The result is the
  kind returned, as a number, and the new state.
\<close>

definition evaluateRequest :: "'c Env \<Rightarrow> string \<Rightarrow> 'c ControlledRobot \<Rightarrow> error + (16 word \<times> 'c ControlledRobot)" where
  "evaluateRequest E request s =
     (let msgtype = read_u16 (stray E) request
      in if length request < 2 then Inl LengthError
      else
        (let serializedMessage = drop 2 request
         in if msgtype = cid E TELEMETRY_REQUEST then
              (let type = read_u16 (stray E) serializedMessage;
                   reply = peekSerialized (buffers s) type
               in Inr (cid E TELEMETRY_REQUEST, commandTransport_send reply s))
            else if msgtype = cid E MAP_REQUEST then
              (let requestedMap = read_u16 (stray E) serializedMessage;
                   map = peekData_map (mapBuffer s) requestedMap
               in Inr (cid E MAP_REQUEST, commandTransport_send map s))
            else if msgtype = cid E LOG_LEVEL_SELECT then
              Inr (cid E LOG_LEVEL_SELECT,
                   commandTransport_send (serializeControlMessageType (cid E LOG_LEVEL_SELECT))
                     (s\<lparr>logLevel := ucast (read_u16 (stray E) serializedMessage)\<rparr>))
            else if msgtype = cid E PERMISSION then
              (let perm = snd (Permission_ParseFromString E serializedMessage);
                   p = pending_lookup (pendingPermissionRequests s) (requestuid perm);
                   p' = (case set_value (granted perm) p of Inl e \<Rightarrow> p | Inr q \<Rightarrow> q);
                   s1 = s\<lparr>pendingPermissionRequests :=
                           (pendingPermissionRequests s)(requestuid perm \<mapsto> p')\<rparr>
               in Inr (cid E PERMISSION,
                       commandTransport_send (serializeControlMessageType msgtype) s1))
            else if msgtype = cid E FILE_REQUEST then
              (let request0 = snd (FileRequest_ParseFromString E serializedMessage);
                   index = find_file (FileDefinition_file (files s)) (FileRequest_identifier request0) 0;
                   request1 = (if ZLIB_FOUND E then request0
                               else request0\<lparr>FileRequest_compressed := False\<rparr>)
               in if index \<ge> 0 \<and> index < int (length (FileDefinition_file (files s))) then
                    (if nat index < length (FileDefinition_isfolder (files s)) then
                       (let isFolder = FileDefinition_isfolder (files s) ! nat index;
                            filedef = FileDefinition_file (files s) ! nat index;
                            folder =
                              (if isFolder
                               then fst (loadFolder E Folder_default (path filedef)
                                           (FileRequest_compressed request1))
                               else Folder_default
                                      \<lparr>Folder_file :=
                                         [fst (loadFile E File_default (path filedef)
                                                 (FileRequest_compressed request1))],
                                       Folder_compressed := FileRequest_compressed request1\<rparr>)
                        in Inr (cid E FILE_REQUEST,
                                commandTransport_send (Folder_SerializeToString E folder) s))
                     else Inl RepeatedFieldIndex)
                  else
                    (let folder = Folder_default
                           \<lparr>Folder_identifier :=
                              ''file/folder :'' @ FileRequest_identifier request1 @ '' undefined''\<rparr>
                     in Inr (cid E FILE_REQUEST,
                             commandTransport_send (Folder_SerializeToString E folder) s)))
            else
              (case commandbuffers s (ucast msgtype) of
                 Some cmdbuffer \<Rightarrow>
                   (case CommandBuffer_write (ParseFromString E cmdbuffer) serializedMessage
                           (cmdbuf s cmdbuffer) of
                      (ok, b') \<Rightarrow>
                        (let s1 = s\<lparr>cmdbuf := (cmdbuf s)(cmdbuffer := b')\<rparr>
                         in if \<not> ok then
                              Inr (cid E NO_CONTROL_DATA,
                                   commandTransport_send
                                     (serializeControlMessageType (cid E NO_CONTROL_DATA)) s1)
                            else
                              Inr (msgtype,
                                   notifyCommandCallbacks msgtype
                                     (commandTransport_send (serializeControlMessageType msgtype) s1))))
               | None \<Rightarrow>
                   Inr (msgtype,
                        commandTransport_send
                          (serializeControlMessageType (cid E NO_CONTROL_DATA)) s))))"

text \<open>
  \<^verbatim>\<open>receiveRequest\<close>: \<open>inbox\<close> holds the messages the command transport will deliver,
  oldest first; a non-blocking \<^verbatim>\<open>receive\<close> takes the first, or reports no data.
\<close>

definition receiveRequest :: "'c Env \<Rightarrow> string list \<Rightarrow> 'c ControlledRobot \<Rightarrow> error + (16 word \<times> string list \<times> 'c ControlledRobot)" where
  "receiveRequest E inbox s =
     (case inbox of
        [] \<Rightarrow> Inr (cid E NO_CONTROL_DATA, [], s)
      | msg # rest \<Rightarrow>
          (case evaluateRequest E msg s of
             Inl e \<Rightarrow> Inl e
           | Inr (requestType, s') \<Rightarrow> Inr (requestType, rest, s')))"

text \<open>
  The loop of \<^verbatim>\<open>update\<close>:
  \<^verbatim>\<open>while (receiveRequest() != NO_CONTROL_DATA) {connected.store(true);}\<close>.
  The result are the messages left in the transport, and the state.
\<close>

fun drain :: "'c Env \<Rightarrow> string list \<Rightarrow> 'c ControlledRobot \<Rightarrow> error + (string list \<times> 'c ControlledRobot)" where
  "drain E [] s = Inr ([], s)"
| "drain E (msg # rest) s =
     (case evaluateRequest E msg s of
        Inl e \<Rightarrow> Inl e
      | Inr (requestType, s') \<Rightarrow>
          (if requestType \<noteq> cid E NO_CONTROL_DATA
           then drain E rest (s'\<lparr>connected := True\<rparr>)
           else Inr (rest, s')))"

text \<open>The rest of \<^verbatim>\<open>update\<close>: the heartbeat parameters and the heartbeat timer.\<close>

definition heartbeat_check :: "'c Env \<Rightarrow> real \<Rightarrow> 'c ControlledRobot \<Rightarrow> 'c ControlledRobot" where
  "heartbeat_check E now s =
     (case CommandBuffer_read (cmdbuf s heartbeatCommand) of
        (fresh, hb, b') \<Rightarrow>
          (let s1 = s\<lparr>cmdbuf := (cmdbuf s)(heartbeatCommand := b'), heartbeatValues := hb\<rparr>;
               s2 = (if fresh
                     then s1\<lparr>connected := True,
                             heartbeatTimer :=
                               Timer_start now (heartbeatduration E hb + heartbeatAllowedLatency s1)
                                 (heartbeatTimer s1)\<rparr>
                     else s1)
           in if Timer_isExpired now (heartbeatTimer s2) then
                (let s3 = s2\<lparr>connected := False\<rparr>;
                     elapsedTime = Timer_getElapsedTime now (heartbeatTimer s3)
                 in if heartbeatExpiredCallback s3
                    then s3\<lparr>heartbeatExpiredLog := heartbeatExpiredLog s3 @ [elapsedTime]\<rparr>
                    else s3)
              else s2))"

definition update :: "'c Env \<Rightarrow> real \<Rightarrow> string list \<Rightarrow> 'c ControlledRobot \<Rightarrow> error + (string list \<times> 'c ControlledRobot)" where
  "update E now inbox s =
     (case drain E inbox s of
        Inl e \<Rightarrow> Inl e
      | Inr (rest, s') \<Rightarrow> Inr (rest, heartbeat_check E now s'))"

section \<open>The earlier evaluator (namespace interaction)\<close>

text \<open>
  \<^verbatim>\<open>src/ControlledRobot.cpp\<close> holds an earlier \<^verbatim>\<open>ControlledRobot\<close>, in namespace
  \<^verbatim>\<open>interaction\<close>, with three kinds and the messages as plain members.  Its header is not
  part of the sources at hand: the wire numbers of its kinds and its codecs are
  parameters.
\<close>

datatype interaction_ControlMessageType =
    interaction_NO_DATA | interaction_CURRENT_POSE | interaction_TARGET_POSE
  | interaction_TWIST_COMMAND

record ('p, 't) interaction_Env =
  interaction_cid :: "interaction_ControlMessageType \<Rightarrow> 16 word"
  interaction_stray :: char
  Pose_ParseFromString :: "string \<Rightarrow> bool \<times> 'p"
  Pose_AppendToString :: "'p \<Rightarrow> string"
  Twist_ParseFromString :: "string \<Rightarrow> bool \<times> 't"

record ('p, 't) interaction_ControlledRobot =
  interaction_commandSent :: "string list"
  interaction_currentPose :: 'p
  interaction_targetPose :: 'p
  interaction_twistCommand :: 't

definition interaction_serializeCurrentPose :: "('p, 't) interaction_Env \<Rightarrow> ('p, 't) interaction_ControlledRobot \<Rightarrow> string" where
  "interaction_serializeCurrentPose E s =
     addControlMessageType [] (interaction_cid E interaction_CURRENT_POSE)
       @ Pose_AppendToString E (interaction_currentPose s)"

definition interaction_send :: "string \<Rightarrow> ('p, 't) interaction_ControlledRobot \<Rightarrow> ('p, 't) interaction_ControlledRobot" where
  "interaction_send buf s = s\<lparr>interaction_commandSent := interaction_commandSent s @ [buf]\<rparr>"

definition interaction_evaluateRequest :: "('p, 't) interaction_Env \<Rightarrow> string \<Rightarrow> ('p, 't) interaction_ControlledRobot \<Rightarrow> error + (16 word \<times> ('p, 't) interaction_ControlledRobot)" where
  "interaction_evaluateRequest E request s =
     (let msgtype = read_u16 (interaction_stray E) request
      in if length request < 2 then Inl LengthError
      else
        (let serializedMessage = drop 2 request
         in if msgtype = interaction_cid E interaction_CURRENT_POSE then
              Inr (interaction_cid E interaction_CURRENT_POSE,
                   interaction_send (interaction_serializeCurrentPose E s) s)
            else if msgtype = interaction_cid E interaction_TARGET_POSE then
              Inr (interaction_cid E interaction_TARGET_POSE,
                   interaction_send
                     (serializeControlMessageType (interaction_cid E interaction_TARGET_POSE))
                     (s\<lparr>interaction_targetPose := snd (Pose_ParseFromString E serializedMessage)\<rparr>))
            else if msgtype = interaction_cid E interaction_TWIST_COMMAND then
              Inr (interaction_cid E interaction_TWIST_COMMAND,
                   interaction_send
                     (serializeControlMessageType (interaction_cid E interaction_TWIST_COMMAND))
                     (s\<lparr>interaction_twistCommand := snd (Twist_ParseFromString E serializedMessage)\<rparr>))
            else
              Inr (msgtype,
                   interaction_send
                     (serializeControlMessageType (interaction_cid E interaction_NO_DATA)) s)))"

section \<open>Frames and observations\<close>

text \<open>A frame: the kind, then the payload.\<close>

definition frame :: "16 word \<Rightarrow> string \<Rightarrow> string" where
  "frame kind payload = serializeControlMessageType kind @ payload"

text \<open>The reply most recently sent on the command transport, if the evaluator returned.\<close>

definition last_reply :: "error + (16 word \<times> 'c ControlledRobot) \<Rightarrow> string option" where
  "last_reply r =
     (case r of
        Inl e \<Rightarrow> None
      | Inr (t, s) \<Rightarrow> (if commandSent s = [] then None else Some (last (commandSent s))))"

text \<open>The state the evaluator leaves, if it returned.\<close>

definition state_after :: "error + (16 word \<times> 'c ControlledRobot) \<Rightarrow> 'c ControlledRobot option" where
  "state_after r = (case r of Inl e \<Rightarrow> None | Inr (t, s) \<Rightarrow> Some s)"

text \<open>
  The kinds that reach the \<^verbatim>\<open>default\<close> case of the \<^verbatim>\<open>switch\<close> in \<^verbatim>\<open>evaluateRequest\<close>:
  those that are none of its five labels.
\<close>

definition not_switch_label :: "'c Env \<Rightarrow> 16 word \<Rightarrow> bool" where
  "not_switch_label E k \<longleftrightarrow>
     k \<noteq> cid E TELEMETRY_REQUEST \<and> k \<noteq> cid E MAP_REQUEST \<and> k \<noteq> cid E LOG_LEVEL_SELECT
   \<and> k \<noteq> cid E PERMISSION \<and> k \<noteq> cid E FILE_REQUEST"

text \<open>The folder the \<^verbatim>\<open>FILE_REQUEST\<close> case builds when no file definition matches.\<close>

definition miss_folder :: "string \<Rightarrow> Folder" where
  "miss_folder ident =
     \<lparr>Folder_file = [], Folder_identifier = ''file/folder :'' @ ident @ '' undefined'',
      Folder_compressed = False\<rparr>"

text \<open>The blob \<^verbatim>\<open>sendTelemetry\<close> builds for a log message: the kind, then the payload.\<close>

definition log_frame :: "'c Env \<Rightarrow> 32 word \<Rightarrow> string \<Rightarrow> string" where
  "log_frame E lvl message =
     addTelemetryMessageType [] (tid E LOG_MESSAGE)
       @ LogMessage_AppendToString E \<lparr>LogMessage_level = lvl, LogMessage_message = message\<rparr>"

section \<open>A concrete instance\<close>

text \<open>
  An instance of the external collaborators, small enough to run by rewriting.  The
  numbering keeps \<open>NO_CONTROL_DATA = 0\<close>, \<open>TWIST_COMMAND = 2\<close> and
  \<open>TELEMETRY_REQUEST = 12\<close> of the spec's scenarios.  A command message is the list of its
  field values, one byte each on the wire; the byte \<open>0xFF\<close> is malformed input, and the
  parser keeps the fields it merged before it met the malformed byte, as a protobuf
  parser does.
\<close>

fun cid_example :: "ControlMessageType \<Rightarrow> 16 word" where
  "cid_example NO_CONTROL_DATA = 0"
| "cid_example TARGET_POSE_COMMAND = 1"
| "cid_example TWIST_COMMAND = 2"
| "cid_example GOTO_COMMAND = 3"
| "cid_example SIMPLE_ACTIONS_COMMAND = 4"
| "cid_example COMPLEX_ACTION_COMMAND = 5"
| "cid_example JOINTS_COMMAND = 6"
| "cid_example HEARTBEAT = 7"
| "cid_example PERMISSION = 8"
| "cid_example ROBOT_TRAJECTORY_COMMAND = 9"
| "cid_example LOG_LEVEL_SELECT = 10"
| "cid_example MAP_REQUEST = 11"
| "cid_example TELEMETRY_REQUEST = 12"
| "cid_example FILE_REQUEST = 13"

definition tid_example :: "TelemetryMessageType \<Rightarrow> 16 word" where
  "tid_example t = word_of_nat (Suc (length (takeWhile (\<lambda>x. x \<noteq> t) telemetry_registrations)))"

definition parse_example :: "string \<Rightarrow> bool \<times> nat list" where
  "parse_example bytes =
     (CHR 0xFF \<notin> set bytes, map of_char (takeWhile (\<lambda>c. c \<noteq> CHR 0xFF) bytes))"

definition Permission_parse_example :: "string \<Rightarrow> bool \<times> Permission" where
  "Permission_parse_example bytes =
     (case bytes of
        [] \<Rightarrow> (False, \<lparr>requestuid = [], granted = False\<rparr>)
      | c # uid \<Rightarrow> (True, \<lparr>requestuid = uid, granted = (c = CHR ''Y'')\<rparr>))"

definition FileRequest_parse_example :: "string \<Rightarrow> bool \<times> FileRequest" where
  "FileRequest_parse_example bytes =
     (case bytes of
        [] \<Rightarrow> (False, \<lparr>FileRequest_identifier = [], FileRequest_compressed = False\<rparr>)
      | c # ident \<Rightarrow>
          (True, \<lparr>FileRequest_identifier = ident, FileRequest_compressed = (c = CHR ''Z'')\<rparr>))"

definition Folder_serialize_example :: "Folder \<Rightarrow> string" where
  "Folder_serialize_example folder =
     (if Folder_compressed folder then ''Z'' else ''-'') @ Folder_identifier folder
       @ concat (map (\<lambda>f. CHR ''|'' # path f @ CHR ''='' # data f) (Folder_file folder))"

definition Env_example :: "(nat list) Env" where
  "Env_example =
     \<lparr>cid = cid_example, tid = tid_example, stray = CHR 0x00,
      ParseFromString = (\<lambda>b. parse_example),
      SerializeToString = (\<lambda>b m. map char_of m),
      Default = (\<lambda>b. []),
      heartbeatduration = (\<lambda>m. case m of [] \<Rightarrow> 0 | d # _ \<Rightarrow> real d / 10),
      Permission_ParseFromString = Permission_parse_example,
      FileRequest_ParseFromString = FileRequest_parse_example,
      Folder_SerializeToString = Folder_serialize_example,
      LogMessage_AppendToString = (\<lambda>m. char_of (unat (LogMessage_level m)) # LogMessage_message m),
      PermissionRequest_AppendToString =
        (\<lambda>r. PermissionRequest_requestuid r @ CHR '':'' # PermissionRequest_description r),
      ZLIB_FOUND = False,
      compressString = (\<lambda>x. x),
      read_file = (\<lambda>p. None),
      directory_entries = (\<lambda>p. ([], None)),
      Transport_send = (\<lambda>buf. word_of_nat (length buf))\<rparr>"

text \<open>A robot as constructed, with a telemetry transport; the same with a null telemetry transport.\<close>

definition robot_example :: "(nat list) ControlledRobot" where
  "robot_example = ControlledRobot_init Env_example (Some [])"

definition robot_no_telemetry :: "(nat list) ControlledRobot" where
  "robot_no_telemetry = ControlledRobot_init Env_example None"

text \<open>The example robot after one well-formed \<open>TWIST_COMMAND\<close> frame, not yet read.\<close>

definition robot_twist_pending :: "(nat list) ControlledRobot" where
  "robot_twist_pending =
     (case evaluateRequest Env_example (frame 2 ''A'') robot_example of
        Inr (t, s) \<Rightarrow> s | Inl e \<Rightarrow> robot_example)"

text \<open>The example robot with one file definition.\<close>

definition robot_with_files :: "(nat list) ControlledRobot" where
  "robot_with_files =
     robot_example\<lparr>files :=
       \<lparr>FileDefinition_file = [\<lparr>File_identifier = ''map'', path = ''/tmp/map'', data = []\<rparr>],
        FileDefinition_isfolder = [False]\<rparr>\<rparr>"




definition request_u1 :: PermissionRequest where
  "request_u1 =
     \<lparr>PermissionRequest_requestuid = ''u1'', PermissionRequest_description = ''open gripper''\<rparr>"

text \<open>An instance of the earlier variant.\<close>

definition interaction_Env_example :: "(nat list, nat list) interaction_Env" where
  "interaction_Env_example =
     \<lparr>interaction_cid = (\<lambda>k. case k of interaction_NO_DATA \<Rightarrow> 0
                               | interaction_CURRENT_POSE \<Rightarrow> 1
                               | interaction_TARGET_POSE \<Rightarrow> 2
                               | interaction_TWIST_COMMAND \<Rightarrow> 3),
      interaction_stray = CHR 0x00,
      Pose_ParseFromString = parse_example,
      Pose_AppendToString = map char_of,
      Twist_ParseFromString = parse_example\<rparr>"

definition interaction_robot_example :: "(nat list, nat list) interaction_ControlledRobot" where
  "interaction_robot_example =
     \<lparr>interaction_commandSent = [], interaction_currentPose = [],
      interaction_targetPose = [], interaction_twistCommand = []\<rparr>"

section \<open>Framing lemmas\<close>

lemma of_char_char_of_unat:
  "(of_char (char_of (unat (w :: 16 word))) :: 16 word) = take_bit 8 w"
proof -
  have "(of_char (char_of (unat w)) :: 16 word) = of_nat (of_char (char_of (unat w)))"
    by (simp only: of_nat_of_char)
  also have "\<dots> = of_nat (unat w mod 256)" by simp
  also have "\<dots> = take_bit 8 w"
  proof -
    have "unat w mod 256 = unat (take_bit 8 w)"
      by (simp add: unsigned_take_bit_eq) (simp add: take_bit_eq_mod)
    then show ?thesis by simp
  qed
  finally show ?thesis .
qed

lemma read_u16_tagged [simp]:
  "read_u16 c (char_of (unat t) # char_of (unat (drop_bit 8 t)) # p) = t"
  apply (simp add: read_u16_def of_char_char_of_unat)
  apply (rule bit_word_eqI)
  apply (auto simp add: bit_simps)
  done

lemma read_u16_serialize [simp]:
  "read_u16 c (serializeControlMessageType t @ p) = t"
  by (simp add: serializeControlMessageType_def addControlMessageType_def)

lemma read_u16_addTelemetry [simp]:
  "read_u16 c (addTelemetryMessageType [] t @ p) = t"
  by (simp add: addTelemetryMessageType_def)

lemma read_u16_addTelemetry_only [simp]:
  "read_u16 c (addTelemetryMessageType [] t) = t"
  using read_u16_addTelemetry [of c t "[]"] by simp

lemma read_u16_serialize_only [simp]:
  "read_u16 c (serializeControlMessageType t) = t"
  using read_u16_serialize [of c t "[]"] by simp

lemma length_serializeControlMessageType [simp]:
  "length (serializeControlMessageType t) = 2"
  by (simp add: serializeControlMessageType_def addControlMessageType_def)

lemma length_addTelemetryMessageType [simp]:
  "length (addTelemetryMessageType [] t) = 2"
  by (simp add: addTelemetryMessageType_def)

lemma drop_serializeControlMessageType [simp]:
  "drop 2 (serializeControlMessageType t @ p) = p"
  by (simp add: serializeControlMessageType_def addControlMessageType_def)

lemma drop_addTelemetryMessageType [simp]:
  "drop 2 (addTelemetryMessageType [] t @ p) = p"
  by (simp add: addTelemetryMessageType_def)

lemma read_u16_frame [simp]: "read_u16 c (frame k p) = k"
  by (simp add: frame_def)

lemma drop_frame [simp]: "drop 2 (frame k p) = p"
  by (simp add: frame_def)

lemma length_frame [simp]: "length (frame k p) = 2 + length p"
  by (simp add: frame_def)

text \<open>Framing round trip: the kind and the payload of a frame are read back.\<close>

lemma untag_tag: "read_u16 c (frame k p) = k \<and> drop 2 (frame k p) = p"
  by simp

section \<open>The constructed robot and the example instance\<close>

lemma init_fields:
  "commandSent (ControlledRobot_init E tt) = []"
  "telemetryTransport (ControlledRobot_init E tt) = tt"
  "connected (ControlledRobot_init E tt) = False"
  "mapBuffer (ControlledRobot_init E tt) = []"
  "logLevel (ControlledRobot_init E tt) = 19"
  "pendingPermissionRequests (ControlledRobot_init E tt) = Map.empty"
  "cmdbuf (ControlledRobot_init E tt) = (\<lambda>b. CommandBuffer_init (Default E b))"
  "commandCallbacks (ControlledRobot_init E tt) = []"
  "commandCallbackLog (ControlledRobot_init E tt) = []"
  "heartbeatValues (ControlledRobot_init E tt) = Default E heartbeatCommand"
  "heartbeatTimer (ControlledRobot_init E tt) = Timer_init"
  "heartbeatAllowedLatency (ControlledRobot_init E tt) = 1 / 10"
  "heartbeatExpiredCallback (ControlledRobot_init E tt) = False"
  "heartbeatExpiredLog (ControlledRobot_init E tt) = []"
  "files (ControlledRobot_init E tt) = \<lparr>FileDefinition_file = [], FileDefinition_isfolder = []\<rparr>"
  by (simp_all add: ControlledRobot_init_def command_registrations_def telemetry_registrations_def
       registerCommandType_def registerTelemetryType_def CUSTOM_def)

lemma init_commandbuffers:
  "commandbuffers (ControlledRobot_init E tt) =
     [ucast (cid E TARGET_POSE_COMMAND) \<mapsto> poseCommand,
      ucast (cid E TWIST_COMMAND) \<mapsto> twistCommand,
      ucast (cid E JOINTS_COMMAND) \<mapsto> jointsCommand,
      ucast (cid E SIMPLE_ACTIONS_COMMAND) \<mapsto> simpleActionsCommand,
      ucast (cid E COMPLEX_ACTION_COMMAND) \<mapsto> complexActionCommandBuffer,
      ucast (cid E GOTO_COMMAND) \<mapsto> goToCommand,
      ucast (cid E HEARTBEAT) \<mapsto> heartbeatCommand,
      ucast (cid E PERMISSION) \<mapsto> permissionCommand,
      ucast (cid E ROBOT_TRAJECTORY_COMMAND) \<mapsto> robotTrajectoryCommand]"
  by (simp add: ControlledRobot_init_def command_registrations_def telemetry_registrations_def
       registerCommandType_def registerTelemetryType_def)

text \<open>The constructor registers a slot, still empty, for every telemetry kind.\<close>

lemma init_buffers_registered:
  "buffers (ControlledRobot_init E tt) (tid E t) = Some None"
  by (cases t)
     (simp_all add: ControlledRobot_init_def command_registrations_def telemetry_registrations_def
        registerCommandType_def registerTelemetryType_def registerType_def)

lemmas example_defs = robot_example_def robot_no_telemetry_def init_fields init_commandbuffers

lemma Env_example_simps [simp]:
  "cid Env_example = cid_example"
  "tid Env_example = tid_example"
  "stray Env_example = CHR 0x00"
  "ParseFromString Env_example b = parse_example"
  "Default Env_example b = []"
  "Permission_ParseFromString Env_example = Permission_parse_example"
  "FileRequest_ParseFromString Env_example = FileRequest_parse_example"
  "Folder_SerializeToString Env_example = Folder_serialize_example"
  "ZLIB_FOUND Env_example = False"
  by (simp_all add: Env_example_def)

lemma heartbeatduration_example [simp]:
  "heartbeatduration Env_example [] = 0"
  "heartbeatduration Env_example (d # ds) = real d / 10"
  by (simp_all add: Env_example_def)

lemma parse_example_simps [simp]:
  "parse_example ''A'' = (True, [65])"
  "parse_example [CHR 0x02] = (True, [2])"
  "parse_example [CHR 0xFF] = (False, [])"
  "parse_example [CHR ''A'', CHR 0xFF] = (False, [65])"
  by (simp_all add: parse_example_def)

lemma robot_example_registered:
  "commandbuffers robot_example 2 = Some twistCommand"
  "commandbuffers robot_example 7 = Some heartbeatCommand"
  by (simp_all add: example_defs)

lemma not_switch_label_example [simp]:
  "not_switch_label Env_example 2" "not_switch_label Env_example 7"
  by (simp_all add: not_switch_label_def)

section \<open>Command slots\<close>

lemma CommandBuffer_write_ok:
  assumes "CommandBuffer_write parse b buf = (True, buf1)"
  shows "fst (parse b) \<and> isnew buf1 \<and> command buf1 = snd (parse b)"
  using assms by (auto simp: CommandBuffer_write_def notify_def Let_def split: if_splits)

lemma CommandBuffer_write_fail:
  assumes "\<not> fst (parse b)"
  shows "CommandBuffer_write parse b buf = (False, buf\<lparr>command := snd (parse b), isnew := False\<rparr>)"
  using assms by (simp add: CommandBuffer_write_def Let_def)

text \<open>
  Claim C2.  For a single-latest command slot, after a successful write of the serialized
  bytes \<open>b\<close> the next read returns true and delivers the decoded value of \<open>b\<close>; a read
  that follows with no write in between returns false.
\<close>

theorem C2_write_then_read:
  assumes "CommandBuffer_write parse b buf = (True, buf1)"
  shows "CommandBuffer_read buf1 = (True, snd (parse b), buf1\<lparr>isnew := False\<rparr>)
       \<and> fst (CommandBuffer_read (buf1\<lparr>isnew := False\<rparr>)) = False"
  using CommandBuffer_write_ok [OF assms] by (simp add: CommandBuffer_read_def)

theorem C2_write_then_read_witness:
  "CommandBuffer_write parse_example ''A'' (CommandBuffer_init []) =
     (True, \<lparr>command = [65], isnew = True, callbacks = [], fired = []\<rparr>)
   \<and> CommandBuffer_read \<lparr>command = [65 :: nat], isnew = True, callbacks = [], fired = []\<rparr> =
     (True, [65], \<lparr>command = [65], isnew = False, callbacks = [], fired = []\<rparr>)
   \<and> fst (CommandBuffer_read \<lparr>command = [65 :: nat], isnew = False, callbacks = [], fired = []\<rparr>) = False"
proof -
  have w: "CommandBuffer_write parse_example ''A'' (CommandBuffer_init []) =
     (True, \<lparr>command = [65], isnew = True, callbacks = [], fired = []\<rparr>)"
    by (simp add: CommandBuffer_write_def CommandBuffer_init_def notify_def Let_def)
  show ?thesis using w C2_write_then_read [OF w]
    by simp
qed

text \<open>
  Claim C10, as stated, fails in its parenthesis: after a write whose payload did not
  decode, so that no successful write has ever occurred, the getter returns false and
  delivers what the failed parse left in the slot, not the default-constructed message.
\<close>

theorem C10_default_counterexample:
  "Default Env_example twistCommand = []
   \<and> map_option (\<lambda>s. (fst (getTwistCommand s), fst (snd (getTwistCommand s))))
       (state_after (evaluateRequest Env_example (frame 2 [CHR ''A'', CHR 0xFF]) robot_example))
     = Some (False, [65])"
proof -
  have reg: "commandbuffers robot_example
               (ucast (read_u16 (stray Env_example) (frame 2 [CHR ''A'', CHR 0xFF])))
             = Some twistCommand"
    by (simp add: robot_example_registered)
  have ev: "evaluateRequest Env_example (frame 2 [CHR ''A'', CHR 0xFF]) robot_example =
          Inr (cid Env_example NO_CONTROL_DATA,
               commandTransport_send (serializeControlMessageType (cid Env_example NO_CONTROL_DATA))
                 (robot_example\<lparr>cmdbuf := (cmdbuf robot_example)
                    (twistCommand := (cmdbuf robot_example twistCommand)
                       \<lparr>command := snd (ParseFromString Env_example twistCommand
                                          (drop 2 (frame 2 [CHR ''A'', CHR 0xFF]))),
                        isnew := False\<rparr>)\<rparr>))"
    unfolding evaluateRequest_def
    using reg by (simp add: not_switch_label_def Let_def CommandBuffer_write_def)
  show ?thesis
    unfolding ev
    by (simp add: commandTransport_send_def state_after_def getTwistCommand_def getCommand_def
          CommandBuffer_read_def)
qed

text \<open>
  Claim C10, amended.  Every command getter overwrites its out-parameter with the value
  the slot holds at that moment, whatever it returns: a second call returns false and
  still delivers the same stored value.  On a robot as constructed, with no write of any
  kind yet, a getter returns false and delivers the default-constructed message.  The
  same holds for the read into a string.
\<close>

theorem C10_getter_overwrites:
  "fst (snd (getCommand b s)) = command (cmdbuf s b)
   \<and> getCommand b (snd (snd (getCommand b s)))
       = (False, command (cmdbuf s b), snd (snd (getCommand b s)))
   \<and> fst (getCommand b (ControlledRobot_init E tt)) = False
   \<and> fst (snd (getCommand b (ControlledRobot_init E tt))) = Default E b
   \<and> fst (snd (CommandBuffer_read_string serialize buf)) = serialize (command buf)"
  by (simp add: getCommand_def CommandBuffer_read_def CommandBuffer_read_string_def
        init_fields CommandBuffer_init_def)

section \<open>The request evaluator\<close>

lemma evaluateRequest_short:
  "length request < 2 \<Longrightarrow> evaluateRequest E request s = Inl LengthError"
  by (simp add: evaluateRequest_def Let_def)

lemma interaction_evaluateRequest_short:
  "length request < 2 \<Longrightarrow> interaction_evaluateRequest E request s = Inl LengthError"
  by (simp add: interaction_evaluateRequest_def Let_def)

lemma interaction_evaluateRequest_one_reply:
  assumes "2 \<le> length request"
  shows "\<exists>requestType s' reply.
           interaction_evaluateRequest E request s = Inr (requestType, s')
         \<and> interaction_commandSent s' = interaction_commandSent s @ [reply]"
  using assms
  by (auto simp: interaction_evaluateRequest_def Let_def interaction_send_def)

text \<open>The loop of \<open>update\<close> is the loop over \<^verbatim>\<open>receiveRequest\<close>.\<close>

lemma drain_receiveRequest:
  "drain E inbox s =
     (case receiveRequest E inbox s of
        Inl e \<Rightarrow> Inl e
      | Inr (requestType, rest, s') \<Rightarrow>
          (if requestType \<noteq> cid E NO_CONTROL_DATA
           then drain E rest (s'\<lparr>connected := True\<rparr>)
           else Inr (rest, s')))"
  by (cases inbox) (auto simp: receiveRequest_def split: sum.splits)

lemma find_file_miss:
  "(\<forall>f \<in> set fs. File_identifier f \<noteq> ident) \<Longrightarrow> find_file fs ident i = - 1"
  by (induction fs arbitrary: i) auto

lemma evaluateRequest_command_ok:
  assumes "2 \<le> length request"
      and "not_switch_label E (read_u16 (stray E) request)"
      and "commandbuffers s (ucast (read_u16 (stray E) request)) = Some bn"
      and "fst (ParseFromString E bn (drop 2 request))"
  shows "evaluateRequest E request s =
           Inr (read_u16 (stray E) request,
                notifyCommandCallbacks (read_u16 (stray E) request)
                  (commandTransport_send (serializeControlMessageType (read_u16 (stray E) request))
                     (s\<lparr>cmdbuf := (cmdbuf s)(bn := notify ((cmdbuf s bn)
                           \<lparr>command := snd (ParseFromString E bn (drop 2 request)), isnew := True\<rparr>))\<rparr>)))"
  using assms
  by (simp add: evaluateRequest_def not_switch_label_def Let_def CommandBuffer_write_def)

lemma evaluateRequest_command_fail:
  assumes "2 \<le> length request"
      and "not_switch_label E (read_u16 (stray E) request)"
      and "commandbuffers s (ucast (read_u16 (stray E) request)) = Some bn"
      and "\<not> fst (ParseFromString E bn (drop 2 request))"
  shows "evaluateRequest E request s =
           Inr (cid E NO_CONTROL_DATA,
                commandTransport_send (serializeControlMessageType (cid E NO_CONTROL_DATA))
                  (s\<lparr>cmdbuf := (cmdbuf s)(bn := (cmdbuf s bn)
                        \<lparr>command := snd (ParseFromString E bn (drop 2 request)), isnew := False\<rparr>)\<rparr>))"
  using assms
  by (simp add: evaluateRequest_def not_switch_label_def Let_def CommandBuffer_write_def)

text \<open>
  An inbound command of a registered kind whose payload decodes is acknowledged with its
  kind, and the getter of its buffer then returns true with the decoded value, once.
\<close>

lemma inbound_command_then_getter:
  assumes "2 \<le> length request"
      and "not_switch_label E (read_u16 (stray E) request)"
      and "commandbuffers s (ucast (read_u16 (stray E) request)) = Some bn"
      and "fst (ParseFromString E bn (drop 2 request))"
  shows "\<exists>s1 s2. evaluateRequest E request s = Inr (read_u16 (stray E) request, s1)
           \<and> commandSent s1 = commandSent s @ [serializeControlMessageType (read_u16 (stray E) request)]
           \<and> getCommand bn s1 = (True, snd (ParseFromString E bn (drop 2 request)), s2)
           \<and> fst (getCommand bn s2) = False"
  by (simp add: evaluateRequest_command_ok [OF assms] commandTransport_send_def
        notifyCommandCallbacks_def getCommand_def CommandBuffer_read_def notify_def)

lemma robot_twist_pending_eq:
  "robot_twist_pending =
     robot_example\<lparr>commandSent := [serializeControlMessageType 2],
       cmdbuf := (cmdbuf robot_example)(twistCommand :=
                   \<lparr>command = [65], isnew = True, callbacks = [], fired = []\<rparr>)\<rparr>"
proof -
  have "evaluateRequest Env_example (frame 2 ''A'') robot_example =
     Inr (2, robot_example\<lparr>commandSent := [serializeControlMessageType 2],
       cmdbuf := (cmdbuf robot_example)(twistCommand :=
                   \<lparr>command = [65], isnew = True, callbacks = [], fired = []\<rparr>)\<rparr>)"
    by (subst evaluateRequest_command_ok [where bn = twistCommand])
       (simp_all add: robot_example_registered notifyCommandCallbacks_def
          commandTransport_send_def notify_def example_defs CommandBuffer_init_def)
  then show ?thesis by (simp add: robot_twist_pending_def)
qed

lemma evaluateRequest_one_reply:
  assumes "2 \<le> length request"
      and "length (FileDefinition_file (files s)) \<le> length (FileDefinition_isfolder (files s))"
  shows "\<exists>requestType s' reply.
           evaluateRequest E request s = Inr (requestType, s')
         \<and> commandSent s' = commandSent s @ [reply]"
proof -
  let ?fd = "files s"
  let ?idx = "find_file (FileDefinition_file ?fd)
                (FileRequest_identifier (snd (FileRequest_ParseFromString E (drop 2 request)))) 0"
  have idx: "0 \<le> ?idx \<and> ?idx < int (length (FileDefinition_file ?fd))
             \<Longrightarrow> nat ?idx < length (FileDefinition_isfolder ?fd)"
    using assms(2) by linarith
  show ?thesis
    using assms(1) idx
    by (auto simp: evaluateRequest_def Let_def commandTransport_send_def
          notifyCommandCallbacks_def split: option.splits prod.splits)
qed

lemma evaluateRequest_files:
  "evaluateRequest E request s = Inr (t, s') \<Longrightarrow> files s' = files s"
  by (auto simp: evaluateRequest_def Let_def commandTransport_send_def
        notifyCommandCallbacks_def split: option.splits prod.splits if_splits)

text \<open>
  The loop of \<open>update\<close> sends one reply for each message it takes from the transport,
  each before the next message is taken.
\<close>

lemma drain_one_reply_each:
  assumes "\<forall>m \<in> set inbox. 2 \<le> length m"
      and "length (FileDefinition_file (files s)) \<le> length (FileDefinition_isfolder (files s))"
  shows "\<exists>rest s'. drain E inbox s = Inr (rest, s')
           \<and> length rest \<le> length inbox
           \<and> length (commandSent s') = length (commandSent s) + (length inbox - length rest)"
  using assms
proof (induction inbox arbitrary: s)
  case Nil
  then show ?case by simp
next
  case (Cons m ms)
  from Cons.prems have m: "2 \<le> length m" by simp
  from evaluateRequest_one_reply [OF m Cons.prems(2), of E]
  obtain t s1 reply where ev: "evaluateRequest E m s = Inr (t, s1)"
    and sent: "commandSent s1 = commandSent s @ [reply]" by blast
  have fl: "files s1 = files s" using ev by (rule evaluateRequest_files)
  show ?case
  proof (cases "t = cid E NO_CONTROL_DATA")
    case True
    then show ?thesis using ev sent by simp
  next
    case False
    have wf: "length (FileDefinition_file (files (s1\<lparr>connected := True\<rparr>)))
                \<le> length (FileDefinition_isfolder (files (s1\<lparr>connected := True\<rparr>)))"
      using Cons.prems(2) fl by simp
    from Cons.IH [OF _ wf] Cons.prems(1)
    obtain rest s' where "drain E ms (s1\<lparr>connected := True\<rparr>) = Inr (rest, s')"
      and "length rest \<le> length ms"
      and "length (commandSent s')
             = length (commandSent (s1\<lparr>connected := True\<rparr>)) + (length ms - length rest)"
      by auto
    then show ?thesis using ev sent False by auto
  qed
qed

text \<open>
  Claim C1, as stated, fails: for an inbound blob shorter than two bytes
  \<^verbatim>\<open>evaluateRequest\<close> sends no reply and does not return \<open>NO_DATA\<close>; the construction of
  the payload string throws.
\<close>

theorem C1_short_request_counterexample:
  "evaluateRequest Env_example [] robot_example = Inl LengthError
   \<and> evaluateRequest Env_example [CHR 0x02] robot_example = Inl LengthError
   \<and> interaction_evaluateRequest interaction_Env_example [] interaction_robot_example
       = Inl LengthError
   \<and> interaction_evaluateRequest interaction_Env_example [CHR 0x02] interaction_robot_example
       = Inl LengthError"
  by (simp add: evaluateRequest_short interaction_evaluateRequest_short)

text \<open>
  Claim C1, amended.  For every inbound message of at least two bytes, the file
  definitions holding an is-folder flag for every file, \<^verbatim>\<open>evaluateRequest\<close> returns and
  has sent exactly one reply on the command transport, whatever the kind and the
  payload.  The same holds for the earlier evaluator.
\<close>

theorem C1_one_reply_per_request:
  assumes "2 \<le> length request"
      and "length (FileDefinition_file (files s)) \<le> length (FileDefinition_isfolder (files s))"
  shows "(\<exists>requestType s' reply.
            evaluateRequest E request s = Inr (requestType, s')
          \<and> commandSent s' = commandSent s @ [reply])
       \<and> (\<exists>requestType s' reply.
            interaction_evaluateRequest E0 request s0 = Inr (requestType, s')
          \<and> interaction_commandSent s' = interaction_commandSent s0 @ [reply])"
  using evaluateRequest_one_reply [OF assms] interaction_evaluateRequest_one_reply [OF assms(1)]
  by blast

theorem C1_one_reply_per_request_witness:
  "2 \<le> length (frame 2 ''A'')
   \<and> length (FileDefinition_file (files robot_example))
       \<le> length (FileDefinition_isfolder (files robot_example))
   \<and> (\<exists>requestType s' reply.
         evaluateRequest Env_example (frame 2 ''A'') robot_example = Inr (requestType, s')
       \<and> commandSent s' = commandSent robot_example @ [reply])
   \<and> (\<exists>requestType s' reply.
         interaction_evaluateRequest interaction_Env_example (frame 2 ''A'')
           interaction_robot_example = Inr (requestType, s')
       \<and> interaction_commandSent s' = interaction_commandSent interaction_robot_example @ [reply])"
proof -
  have h1: "2 \<le> length (frame 2 ''A'')" by simp
  have h2: "length (FileDefinition_file (files robot_example))
              \<le> length (FileDefinition_isfolder (files robot_example))"
    by (simp add: example_defs)
  from C1_one_reply_per_request [OF h1 h2, of Env_example interaction_Env_example
         interaction_robot_example] h1 h2
  show ?thesis by blast
qed

text \<open>
  Claim C3, as stated, fails: a \<open>TWIST_COMMAND\<close> was written and not yet read; a second
  \<open>TWIST_COMMAND\<close> frame whose payload does not decode arrives; the read that follows
  returns false.
\<close>

theorem C3_fresh_flag_counterexample:
  "fst (getTwistCommand robot_twist_pending) = True
   \<and> map_option (\<lambda>s. fst (getTwistCommand s))
       (state_after (evaluateRequest Env_example (frame 2 [CHR 0xFF]) robot_twist_pending))
     = Some False"
proof -
  have reg: "commandbuffers robot_twist_pending
               (ucast (read_u16 (stray Env_example) (frame 2 [CHR 0xFF]))) = Some twistCommand"
    by (simp add: robot_twist_pending_eq robot_example_registered)
  have "evaluateRequest Env_example (frame 2 [CHR 0xFF]) robot_twist_pending =
          Inr (cid Env_example NO_CONTROL_DATA,
               commandTransport_send (serializeControlMessageType (cid Env_example NO_CONTROL_DATA))
                 (robot_twist_pending\<lparr>cmdbuf := (cmdbuf robot_twist_pending)
                    (twistCommand := (cmdbuf robot_twist_pending twistCommand)
                       \<lparr>command := snd (ParseFromString Env_example twistCommand
                                          (drop 2 (frame 2 [CHR 0xFF]))),
                        isnew := False\<rparr>)\<rparr>))"
    by (rule evaluateRequest_command_fail [OF _ _ reg]) simp_all
  then show ?thesis
    by (simp add: state_after_def getTwistCommand_def getCommand_def CommandBuffer_read_def
          commandTransport_send_def robot_twist_pending_eq)
qed

text \<open>
  Claim C3, amended.  When an inbound command payload fails to decode for a registered
  kind, the evaluator replies \<open>NO_DATA\<close>, returns \<open>NO_DATA\<close> and clears the slot's fresh
  flag: a read after the failed decode returns false, also when a previous write had
  not yet been read.
\<close>

theorem C3_failed_decode_clears_fresh:
  assumes "2 \<le> length request"
      and "not_switch_label E (read_u16 (stray E) request)"
      and "commandbuffers s (ucast (read_u16 (stray E) request)) = Some bn"
      and "\<not> fst (ParseFromString E bn (drop 2 request))"
  shows "\<exists>s'. evaluateRequest E request s = Inr (cid E NO_CONTROL_DATA, s')
            \<and> commandSent s' = commandSent s @ [serializeControlMessageType (cid E NO_CONTROL_DATA)]
            \<and> \<not> isnew (cmdbuf s' bn)
            \<and> fst (getCommand bn s') = False"
  by (simp add: evaluateRequest_command_fail [OF assms] commandTransport_send_def
        getCommand_def CommandBuffer_read_def)

theorem C3_failed_decode_clears_fresh_witness:
  "2 \<le> length (frame 2 [CHR 0xFF])
   \<and> not_switch_label Env_example (read_u16 (stray Env_example) (frame 2 [CHR 0xFF]))
   \<and> commandbuffers robot_twist_pending
       (ucast (read_u16 (stray Env_example) (frame 2 [CHR 0xFF]))) = Some twistCommand
   \<and> \<not> fst (ParseFromString Env_example twistCommand (drop 2 (frame 2 [CHR 0xFF])))
   \<and> isnew (cmdbuf robot_twist_pending twistCommand)
   \<and> (\<exists>s'. evaluateRequest Env_example (frame 2 [CHR 0xFF]) robot_twist_pending
              = Inr (cid Env_example NO_CONTROL_DATA, s')
          \<and> commandSent s' = commandSent robot_twist_pending
                               @ [serializeControlMessageType (cid Env_example NO_CONTROL_DATA)]
          \<and> \<not> isnew (cmdbuf s' twistCommand)
          \<and> fst (getCommand twistCommand s') = False)"
proof -
  have h1: "2 \<le> length (frame 2 [CHR 0xFF])" by simp
  have h2: "not_switch_label Env_example (read_u16 (stray Env_example) (frame 2 [CHR 0xFF]))"
    by simp
  have h3: "commandbuffers robot_twist_pending
              (ucast (read_u16 (stray Env_example) (frame 2 [CHR 0xFF]))) = Some twistCommand"
    by (simp add: robot_twist_pending_eq robot_example_registered)
  have h4: "\<not> fst (ParseFromString Env_example twistCommand (drop 2 (frame 2 [CHR 0xFF])))"
    by simp
  have h5: "isnew (cmdbuf robot_twist_pending twistCommand)"
    by (simp add: robot_twist_pending_eq)
  from C3_failed_decode_clears_fresh [OF h1 h2 h3 h4] h1 h2 h3 h4 h5 show ?thesis by blast
qed

section \<open>File requests\<close>

text \<open>
  Claim C8, as stated, fails: the reply to a \<open>FILE_REQUEST\<close> that matches no file
  definition is the serialized \<^verbatim>\<open>Folder\<close> alone.  It is not a frame: no kind precedes the
  \<^verbatim>\<open>Folder\<close>.
\<close>

theorem C8_unframed_reply_counterexample:
  "last_reply (evaluateRequest Env_example (frame (cid Env_example FILE_REQUEST) ''Znope'')
                 robot_example)
     = Some ''-file/folder :nope undefined''
   \<and> Folder_SerializeToString Env_example (miss_folder ''nope'') = ''-file/folder :nope undefined''
   \<and> (\<forall>k. frame k (Folder_SerializeToString Env_example (miss_folder ''nope''))
            \<noteq> ''-file/folder :nope undefined'')"
proof -
  have ser: "Folder_SerializeToString Env_example (miss_folder ''nope'')
               = ''-file/folder :nope undefined''"
    by (simp add: miss_folder_def Folder_serialize_example_def)
  have ne: "frame k (Folder_SerializeToString Env_example (miss_folder ''nope''))
              \<noteq> ''-file/folder :nope undefined''" for k
  proof
    assume "frame k (Folder_SerializeToString Env_example (miss_folder ''nope''))
              = ''-file/folder :nope undefined''"
    then have "length (frame k (Folder_SerializeToString Env_example (miss_folder ''nope'')))
                 = length ''-file/folder :nope undefined''"
      by (rule arg_cong)
    then show False by (simp add: miss_folder_def Folder_serialize_example_def)
  qed
  have "last_reply (evaluateRequest Env_example (frame (cid Env_example FILE_REQUEST) ''Znope'')
                      robot_example)
          = Some ''-file/folder :nope undefined''"
    by (subst evaluateRequest_def)
       (simp add: Let_def example_defs commandTransport_send_def last_reply_def
          FileRequest_parse_example_def Folder_default_def Folder_serialize_example_def)
  with ser ne show ?thesis by blast
qed

text \<open>
  Claim C8, amended.  When an inbound \<open>FILE_REQUEST\<close> carries an identifier that matches
  no file definition, the one reply sent on the command transport is the serialized
  \<^verbatim>\<open>Folder\<close>, with no kind in front of it, that has no file entries and whose identifier
  is \<open>file/folder :\<close> followed by the requested identifier followed by \<open> undefined\<close>.
\<close>

theorem C8_file_request_miss:
  assumes "cid E FILE_REQUEST \<notin> {cid E TELEMETRY_REQUEST, cid E MAP_REQUEST,
                                     cid E LOG_LEVEL_SELECT, cid E PERMISSION}"
      and "\<forall>f \<in> set (FileDefinition_file (files s)).
             File_identifier f
               \<noteq> FileRequest_identifier (snd (FileRequest_ParseFromString E payload))"
  shows "evaluateRequest E (frame (cid E FILE_REQUEST) payload) s =
           Inr (cid E FILE_REQUEST,
                s\<lparr>commandSent := commandSent s @
                   [Folder_SerializeToString E
                      (miss_folder (FileRequest_identifier
                                      (snd (FileRequest_ParseFromString E payload))))]\<rparr>)"
  using assms(1) find_file_miss [OF assms(2), of 0]
  by (simp add: evaluateRequest_def Let_def commandTransport_send_def miss_folder_def
        Folder_default_def)

theorem C8_file_request_miss_witness:
  "cid Env_example FILE_REQUEST
     \<notin> {cid Env_example TELEMETRY_REQUEST, cid Env_example MAP_REQUEST,
         cid Env_example LOG_LEVEL_SELECT, cid Env_example PERMISSION}
   \<and> FileRequest_identifier (snd (FileRequest_ParseFromString Env_example ''Znope'')) = ''nope''
   \<and> map File_identifier (FileDefinition_file (files robot_with_files)) = [''map'']
   \<and> evaluateRequest Env_example (frame (cid Env_example FILE_REQUEST) ''Znope'') robot_with_files =
           Inr (cid Env_example FILE_REQUEST,
                robot_with_files\<lparr>commandSent := commandSent robot_with_files @
                   [Folder_SerializeToString Env_example (miss_folder ''nope'')]\<rparr>)"
proof -
  have h1: "cid Env_example FILE_REQUEST
              \<notin> {cid Env_example TELEMETRY_REQUEST, cid Env_example MAP_REQUEST,
                  cid Env_example LOG_LEVEL_SELECT, cid Env_example PERMISSION}"
    by simp
  have id: "FileRequest_identifier (snd (FileRequest_ParseFromString Env_example ''Znope''))
              = ''nope''"
    by (simp add: FileRequest_parse_example_def)
  have fs: "map File_identifier (FileDefinition_file (files robot_with_files)) = [''map'']"
    by (simp add: robot_with_files_def)
  have h2: "\<forall>f \<in> set (FileDefinition_file (files robot_with_files)).
             File_identifier f
               \<noteq> FileRequest_identifier (snd (FileRequest_ParseFromString Env_example ''Znope''))"
    by (simp add: robot_with_files_def FileRequest_parse_example_def)
  from C8_file_request_miss [OF h1 h2] h1 id fs show ?thesis by simp
qed

section \<open>Telemetry\<close>

text \<open>
  Claim C9, as stated, fails: with a null telemetry transport a message whose level passes
  the gate is not sent, and the call returns 0.
\<close>

theorem C9_null_transport_counterexample:
  "(1 :: 32 word) \<le> logLevel robot_no_telemetry
   \<and> setLogMessage Env_example 1 ''fatal'' robot_no_telemetry = (0, robot_no_telemetry)
   \<and> telemetryTransport robot_no_telemetry = None"
  by (simp add: setLogMessage_def sendTelemetry_def example_defs)

text \<open>
  Claim C9, amended.  With a telemetry transport configured, for every log level \<open>lvl\<close>
  and current level \<open>L\<close>, \<^verbatim>\<open>setLogMessage(lvl, msg)\<close> sends a \<open>LOG_MESSAGE\<close> telemetry message
  if and only if \<open>lvl \<le> L\<close> or \<open>lvl \<ge> CUSTOM\<close>; otherwise nothing is sent, nothing changes
  and the call returns \<open>-1\<close>.
\<close>

theorem C9_log_gating:
  assumes "telemetryTransport s = Some sent"
  shows "(telemetryTransport (snd (setLogMessage E lvl message s))
            = Some (sent @ [log_frame E lvl message]))
           = (lvl \<le> logLevel s \<or> CUSTOM \<le> lvl)
       \<and> (\<not> (lvl \<le> logLevel s \<or> CUSTOM \<le> lvl) \<longrightarrow> setLogMessage E lvl message s = (- 1, s))"
  using assms
  by (auto simp: setLogMessage_def sendTelemetry_def Let_def log_frame_def)

theorem C9_log_gating_witness:
  "telemetryTransport robot_example = Some []
   \<and> logLevel robot_example = 19
   \<and> telemetryTransport (snd (setLogMessage Env_example 3 ''warn'' robot_example))
       = Some [log_frame Env_example 3 ''warn'']
   \<and> telemetryTransport (snd (setLogMessage Env_example 25 ''custom'' robot_example))
       = Some [log_frame Env_example 25 ''custom'']
   \<and> \<not> ((3 :: 32 word) \<le> 2 \<or> CUSTOM \<le> 3)
   \<and> setLogMessage Env_example 3 ''warn'' (robot_example\<lparr>logLevel := 2\<rparr>)
       = (- 1, robot_example\<lparr>logLevel := 2\<rparr>)"
proof -
  have h: "telemetryTransport robot_example = Some []" by (simp add: example_defs)
  have h': "telemetryTransport (robot_example\<lparr>logLevel := 2\<rparr>) = Some []"
    by (simp add: example_defs)
  have l: "logLevel robot_example = 19" by (simp add: example_defs)
  have g: "\<not> ((3 :: 32 word) \<le> 2 \<or> CUSTOM \<le> 3)" by (simp add: CUSTOM_def)
  from C9_log_gating [OF h, of Env_example 3 "''warn''"]
       C9_log_gating [OF h, of Env_example 25 "''custom''"]
       C9_log_gating [OF h', of Env_example 3 "''warn''"] h l g
  show ?thesis by (simp add: CUSTOM_def)
qed

text \<open>
  Claim C4, as stated, fails: with a null telemetry transport \<^verbatim>\<open>sendTelemetry\<close> stores
  nothing, and the reply to the \<open>TELEMETRY_REQUEST\<close> that follows is the empty buffer.
\<close>

theorem C4_null_transport_counterexample:
  "last_reply
     (evaluateRequest Env_example (frame (cid Env_example TELEMETRY_REQUEST)
                                     (addTelemetryMessageType [] (tid Env_example CURRENT_POSE)))
        (snd (sendTelemetry Env_example (\<lambda>v. v) ''x=3,y=4'' (tid Env_example CURRENT_POSE) False
                robot_no_telemetry)))
   = Some []"
  by (simp add: evaluateRequest_def sendTelemetry_def Let_def commandTransport_send_def
        peekSerialized_def last_reply_def example_defs telemetry_registrations_def
        ControlledRobot_init_def command_registrations_def registerCommandType_def
        registerTelemetryType_def registerType_def tid_example_def)

text \<open>
  Claim C4, amended.  With a telemetry transport configured, for every registered
  telemetry kind \<open>t\<close>, \<^verbatim>\<open>sendTelemetry(v, t)\<close> followed by an inbound \<open>TELEMETRY_REQUEST\<close>
  whose 16-bit sub-kind is \<open>t\<close> produces one reply on the command transport: the kind \<open>t\<close>
  followed by the serialization of \<open>v\<close>, so that its payload decodes to \<open>v\<close> under a
  decoder that inverts the serializer at \<open>v\<close>.
\<close>

theorem C4_telemetry_pull:
  assumes "telemetryTransport s = Some sent"
      and "buffers s t \<noteq> None"
      and "decode (AppendToString v) = Some v"
  shows "\<exists>s'. evaluateRequest E (frame (cid E TELEMETRY_REQUEST) (addTelemetryMessageType [] t))
                 (snd (sendTelemetry E AppendToString v t requestOnly s))
               = Inr (cid E TELEMETRY_REQUEST, s')
            \<and> commandSent s' = commandSent s @ [addTelemetryMessageType [] t @ AppendToString v]
            \<and> read_u16 (stray E) (last (commandSent s')) = t
            \<and> decode (drop 2 (last (commandSent s'))) = Some v"
  using assms
  by (auto simp: evaluateRequest_def sendTelemetry_def Let_def commandTransport_send_def
        pushData_def peekSerialized_def)

theorem C4_telemetry_pull_witness:
  "telemetryTransport robot_example = Some []
   \<and> buffers robot_example (tid Env_example CURRENT_POSE) \<noteq> None
   \<and> Some ((\<lambda>v. v) ''x=3,y=4'') = Some ''x=3,y=4''
   \<and> (\<exists>s'. evaluateRequest Env_example
               (frame (cid Env_example TELEMETRY_REQUEST)
                  (addTelemetryMessageType [] (tid Env_example CURRENT_POSE)))
               (snd (sendTelemetry Env_example (\<lambda>v. v) ''x=3,y=4'' (tid Env_example CURRENT_POSE)
                       False robot_example))
             = Inr (cid Env_example TELEMETRY_REQUEST, s')
          \<and> commandSent s' = commandSent robot_example
               @ [addTelemetryMessageType [] (tid Env_example CURRENT_POSE) @ ''x=3,y=4'']
          \<and> read_u16 (stray Env_example) (last (commandSent s')) = tid Env_example CURRENT_POSE
          \<and> Some (drop 2 (last (commandSent s'))) = Some ''x=3,y=4'')"
proof -
  have h1: "telemetryTransport robot_example = Some []" by (simp add: example_defs)
  have h2: "buffers robot_example (tid Env_example CURRENT_POSE) \<noteq> None"
    unfolding robot_example_def
    using init_buffers_registered [of Env_example "Some []" CURRENT_POSE] by simp
  have h3: "Some ((\<lambda>v. v) ''x=3,y=4'') = Some ''x=3,y=4''" by simp
  from C4_telemetry_pull [of robot_example "[]" "tid Env_example CURRENT_POSE" Some "\<lambda>v. v"
         "''x=3,y=4''" Env_example False, OF h1 h2 h3] h1 h2 h3
  show ?thesis by simp
qed

section \<open>Permission requests\<close>

text \<open>
  The first request for a uid returns a future; the \<open>PERMISSION\<close> message for that uid
  resolves it; a second \<open>PERMISSION\<close> message for the uid is acknowledged and leaves the
  future as it is.
\<close>

lemma permission_round_trip:
  assumes fresh: "pendingPermissionRequests s (PermissionRequest_requestuid req) = None"
      and lab: "cid E PERMISSION \<notin> {cid E TELEMETRY_REQUEST, cid E MAP_REQUEST, cid E LOG_LEVEL_SELECT}"
      and p1: "snd (Permission_ParseFromString E payload) =
                 \<lparr>requestuid = PermissionRequest_requestuid req, granted = g\<rparr>"
      and p2: "snd (Permission_ParseFromString E payload') =
                 \<lparr>requestuid = PermissionRequest_requestuid req, granted = g'\<rparr>"
  shows "\<exists>s1 s2 s3.
           requestPermission E req s = (Some (Future (PermissionRequest_requestuid req)), s1)
         \<and> future_value s1 (Future (PermissionRequest_requestuid req)) = None
         \<and> evaluateRequest E (frame (cid E PERMISSION) payload) s1 = Inr (cid E PERMISSION, s2)
         \<and> future_value s2 (Future (PermissionRequest_requestuid req)) = Some g
         \<and> evaluateRequest E (frame (cid E PERMISSION) payload') s2 = Inr (cid E PERMISSION, s3)
         \<and> future_value s3 (Future (PermissionRequest_requestuid req)) = Some g
         \<and> commandSent s3 = commandSent s @ [serializeControlMessageType (cid E PERMISSION),
                                                serializeControlMessageType (cid E PERMISSION)]"
  using assms
  by (auto simp: requestPermission_def evaluateRequest_def Let_def sendTelemetry_def
        pending_lookup_def get_future_def set_value_def promise_default_def future_value_def
        commandTransport_send_def split: option.splits)

text \<open>
  Claim C7: \<^verbatim>\<open>requestPermission\<close> with request-uid \<open>u\<close> always returns a shareable future.
  The code does not: the first request for \<open>u1\<close> returns a future, the second request
  for the same uid returns none (\<^verbatim>\<open>get_future\<close> throws, the handler is empty, and the
  function ends without a \<^verbatim>\<open>return\<close>).
\<close>

theorem C7_second_request_returns_no_future:
  "fst (requestPermission Env_example request_u1 robot_example) = Some (Future ''u1'')
   \<and> fst (requestPermission Env_example request_u1
            (snd (requestPermission Env_example request_u1 robot_example))) = None"
  by (simp add: requestPermission_def Let_def sendTelemetry_def pending_lookup_def get_future_def
        promise_default_def request_u1_def example_defs)

section \<open>The update loop and the heartbeat\<close>

text \<open>
  Claim C6: a single \<open>update\<close> drains the command transport until \<^verbatim>\<open>receive\<close> reports no
  data, and a message whose payload fails to decode neither stops the drain nor leaves
  \<open>connected\<close> unset.  The code does not: with a \<open>TWIST_COMMAND\<close> frame that does not
  decode followed by a well-formed one, \<open>update\<close> returns with the second message still
  in the transport and \<open>connected\<close> false.
\<close>

theorem C6_drain_stops_at_decode_failure:
  "map_sum id (\<lambda>(rest, s). (rest, isConnected s))
     (update Env_example 0 [frame 2 [CHR 0xFF], frame 2 ''A''] robot_example)
   = Inr ([frame 2 ''A''], False)"
proof -
  have reg: "commandbuffers robot_example
               (ucast (read_u16 (stray Env_example) (frame 2 [CHR 0xFF]))) = Some twistCommand"
    by (simp add: robot_example_registered)
  show ?thesis
    apply (simp add: update_def)
    apply (subst evaluateRequest_command_fail [OF _ _ reg])
    apply (simp_all add: heartbeat_check_def CommandBuffer_read_def commandTransport_send_def
        Timer_isExpired_def isConnected_def example_defs CommandBuffer_init_def Timer_init_def)
    done
qed







end
